theory Spec2Isabelle
  imports Complex_Main
begin

section \<open>Values of the gateway\<close>

text \<open>
  The gateway exchanges JSON objects (\<^verbatim>\<open>Record<string, any>\<close>) with its callers. An object
  is an association list in the order the source writes its keys. The numbers the gateway
  produces are all integers (\<^verbatim>\<open>Math.floor\<close> results), so \<open>JNum\<close> carries an \<open>int\<close>.
\<close>

datatype json =
    JNull
  | JNum int
  | JStr string
  | JArr "json list"
  | JObj "(string \<times> json) list"

text \<open>Property read \<^verbatim>\<open>v?.key\<close>: \<open>None\<close> is JavaScript's \<^verbatim>\<open>undefined\<close>.\<close>

fun field :: "json \<Rightarrow> string \<Rightarrow> json option" where
  "field (JObj kvs) k = map_of kvs k"
| "field _ k = None"

text \<open>JavaScript truthiness of an optional value, as \<^verbatim>\<open>a || b\<close> tests it.\<close>

fun truthy :: "json option \<Rightarrow> bool" where
  "truthy None = False"
| "truthy (Some JNull) = False"
| "truthy (Some (JNum n)) = (n \<noteq> 0)"
| "truthy (Some (JStr s)) = (s \<noteq> [])"
| "truthy (Some (JArr _)) = True"
| "truthy (Some (JObj _)) = True"

text \<open>Template-literal rendering of a non-negative integer (\<^verbatim>\<open>`${Date.now()}`\<close>).\<close>

fun string_of_nat :: "nat \<Rightarrow> string" where
  "string_of_nat n =
     (if n < 10 then [''0123456789'' ! n]
      else string_of_nat (n div 10) @ [''0123456789'' ! (n mod 10)])"

text \<open>
  \<^verbatim>\<open>parseInt\<close> yields an integer or \<^verbatim>\<open>NaN\<close>; both reach \<^verbatim>\<open>startHeartbeat\<close> and are
  rendered into its cron expression and log lines. The rendering is JavaScript's for
  integers of absolute value below \<open>10\<^sup>2\<^sup>1\<close>; from there on JavaScript prints an
  exponent form (and \<^verbatim>\<open>Infinity\<close>), which the digits written here do not follow.
\<close>

datatype js_number = NaN | Num int

fun string_of_number :: "js_number \<Rightarrow> string" where
  "string_of_number NaN = ''NaN''"
| "string_of_number (Num i) =
     (if i < 0 then ''-'' @ string_of_nat (nat (- i)) else string_of_nat (nat i))"

text \<open>\<^verbatim>\<open>a || b\<close> on an optional string: \<^verbatim>\<open>undefined\<close> and the empty string are falsy.\<close>

fun or_else :: "string option \<Rightarrow> string \<Rightarrow> string" where
  "or_else None d = d"
| "or_else (Some s) d = (if s = [] then d else s)"

text \<open>
  \<^verbatim>\<open>s.substring(0, n)\<close> on ASCII text. A \<open>char\<close> is a byte: on other text \<open>take\<close> counts
  the bytes of the UTF-8 encoding where JavaScript counts UTF-16 code units. Only log
  lines are cut this way.
\<close>

definition substring0 :: "nat \<Rightarrow> string \<Rightarrow> string" where
  "substring0 n s = take n s"

section \<open>Observable effects\<close>

datatype level = Info | Warn | Error

record ExecuteParams =
  action :: string
  postUrl :: string
  content :: string
  parentCommentId :: "string option"
  metadata :: json

text \<open>
  What a handler does besides answering: lines written through \<^verbatim>\<open>logger\<close>, calls of an
  adapter method, and outgoing HTTP requests (\<^verbatim>\<open>fetch\<close>).
\<close>

datatype effect =
    Log level string
  | ExecuteCalled ExecuteParams
  | CollectMetricsCalled "string list"
  | Fetch string string

section \<open>Post-id extraction\<close>

text \<open>
  The three adapters find the post id with \<^verbatim>\<open>url.match(re)\<close>. Each regular expression is
  a literal followed by one capture group \<^verbatim>\<open>(class+)\<close>; \<^verbatim>\<open>match\<close> returns the leftmost
  position where the literal is followed by at least one character of the class, and the
  group captures the longest run of class characters there. Only ASCII characters can
  match any of the three expressions.
\<close>

definition is_digit :: "char \<Rightarrow> bool" where
  "is_digit c = (c \<in> set ''0123456789'')"

definition is_alnum :: "char \<Rightarrow> bool" where
  "is_alnum c =
     (c \<in> set ''abcdefghijklmnopqrstuvwxyzABCDEFGHIJKLMNOPQRSTUVWXYZ0123456789'')"

definition is_shortcode_char :: "char \<Rightarrow> bool" where
  "is_shortcode_char c = (is_alnum c \<or> c = CHR ''_'' \<or> c = CHR ''-'')"

definition ascii_lower :: "char \<Rightarrow> char" where
  "ascii_lower c =
     (case map_of (zip ''ABCDEFGHIJKLMNOPQRSTUVWXYZ'' ''abcdefghijklmnopqrstuvwxyz'') c of
        Some l \<Rightarrow> l
      | None \<Rightarrow> c)"

text \<open>The literal \<open>lit\<close> at the head of \<open>s\<close>, then \<^verbatim>\<open>(class+)\<close>: the captured run.\<close>

definition match_here :: "string \<Rightarrow> (char \<Rightarrow> bool) \<Rightarrow> string \<Rightarrow> string option" where
  "match_here lit cls s =
     (if take (length lit) s = lit then
        (let run = takeWhile cls (drop (length lit) s)
         in if run = [] then None else Some run)
      else None)"

text \<open>The same under the \<^verbatim>\<open>i\<close> flag; \<open>lit\<close> is written in lower case.\<close>

definition match_here_i :: "string \<Rightarrow> (char \<Rightarrow> bool) \<Rightarrow> string \<Rightarrow> string option" where
  "match_here_i lit cls s =
     (if map ascii_lower (take (length lit) s) = lit then
        (let run = takeWhile cls (drop (length lit) s)
         in if run = [] then None else Some run)
      else None)"

text \<open>Leftmost match: try every start position from the left.\<close>

fun search :: "(string \<Rightarrow> string option) \<Rightarrow> string \<Rightarrow> string option" where
  "search m [] = m []"
| "search m (c # cs) = (case m (c # cs) of Some r \<Rightarrow> Some r | None \<Rightarrow> search m cs)"

text \<open>\<^verbatim>\<open>url.match(/status\/(\d+)/)\<close>, then \<^verbatim>\<open>match ? match[1] : ""\<close>.\<close>

definition extractTweetId :: "string \<Rightarrow> string" where
  "extractTweetId url =
     (case search (match_here ''status/'' is_digit) url of Some m \<Rightarrow> m | None \<Rightarrow> [])"

text \<open>\<^verbatim>\<open>url.match(/comments\/([a-z0-9]+)/i)\<close>.\<close>

definition extractRedditId :: "string \<Rightarrow> string" where
  "extractRedditId url =
     (case search (match_here_i ''comments/'' is_alnum) url of Some m \<Rightarrow> m | None \<Rightarrow> [])"

text \<open>
  \<^verbatim>\<open>url.match(/\/(p|reel)\/([A-Za-z0-9_-]+)/)\<close>, group 2. The alternatives start with
  different letters, so at most one of them matches at a position.
\<close>

definition match_ig :: "string \<Rightarrow> string option" where
  "match_ig s =
     (case match_here ''/p/'' is_shortcode_char s of
        Some r \<Rightarrow> Some r
      | None \<Rightarrow> match_here ''/reel/'' is_shortcode_char s)"

definition extractIgShortcode :: "string \<Rightarrow> string" where
  "extractIgShortcode url = (case search match_ig url of Some m \<Rightarrow> m | None \<Rightarrow> [])"

section \<open>Platform adapters\<close>

text \<open>
  \<^verbatim>\<open>execute\<close> of an adapter. \<open>now\<close> is the value \<^verbatim>\<open>Date.now()\<close> returns during the call.
  The outcome is the lines written through \<^verbatim>\<open>logger\<close> and either the object returned (\<open>Inr\<close>) or the message
  of the \<^verbatim>\<open>Error\<close> thrown (\<open>Inl\<close>). The \<^verbatim>\<open>action\<close> is a string at run time: the
  \<^verbatim>\<open>default\<close> branch of the \<^verbatim>\<open>switch\<close> is reachable.
\<close>

type_synonym log_line = "level \<times> string"

type_synonym execute_outcome = "log_line list \<times> (string + json)"

definition TwitterAgent_execute :: "nat \<Rightarrow> ExecuteParams \<Rightarrow> execute_outcome" where
  "TwitterAgent_execute now params =
     (let tweetId = extractTweetId (postUrl params);
          log0 = (Info, ''Twitter: '' @ action params @ '' on tweet '' @ tweetId)
      in if action params = ''comment'' then
           ([log0,
             (Info, ''Twitter: would reply to '' @ tweetId @ '': \"''
                       @ substring0 50 (content params) @ ''...\"'')],
            Inr (JObj [(''id'', JStr (''tw_reply_'' @ string_of_nat now)),
                       (''tweet_id'', JStr tweetId),
                       (''action'', JStr ''reply''),
                       (''content'', JStr (content params)),
                       (''status'', JStr ''simulated'')]))
         else if action params = ''reply'' then
           (let replyToId = or_else (parentCommentId params) tweetId
            in ([log0,
                 (Info, ''Twitter: would reply to comment '' @ replyToId @ '': \"''
                           @ substring0 50 (content params) @ ''...\"'')],
                Inr (JObj [(''id'', JStr (''tw_thread_'' @ string_of_nat now)),
                           (''reply_to'', JStr replyToId),
                           (''action'', JStr ''reply''),
                           (''content'', JStr (content params)),
                           (''status'', JStr ''simulated'')])))
         else if action params = ''repost'' then
           ([log0,
             (Info, ''Twitter: would quote retweet '' @ tweetId @ '': \"''
                       @ substring0 50 (content params) @ ''...\"'')],
            Inr (JObj [(''id'', JStr (''tw_qt_'' @ string_of_nat now)),
                       (''tweet_id'', JStr tweetId),
                       (''action'', JStr ''quote_retweet''),
                       (''content'', JStr (content params)),
                       (''status'', JStr ''simulated'')]))
         else ([log0], Inl (''Unsupported action: '' @ action params)))"

definition RedditAgent_execute :: "nat \<Rightarrow> ExecuteParams \<Rightarrow> execute_outcome" where
  "RedditAgent_execute now params =
     (let postId = extractRedditId (postUrl params);
          log0 = (Info, ''Reddit: '' @ action params @ '' on post '' @ postId)
      in if action params = ''comment'' then
           ([log0,
             (Info, ''Reddit: would comment on '' @ postId @ '': \"''
                       @ substring0 50 (content params) @ ''...\"'')],
            Inr (JObj [(''id'', JStr (''rd_comment_'' @ string_of_nat now)),
                       (''post_id'', JStr postId),
                       (''action'', JStr ''comment''),
                       (''content'', JStr (content params)),
                       (''status'', JStr ''simulated'')]))
         else if action params = ''reply'' then
           (let replyTo = or_else (parentCommentId params) postId
            in ([log0,
                 (Info, ''Reddit: would reply to '' @ replyTo @ '': \"''
                           @ substring0 50 (content params) @ ''...\"'')],
                Inr (JObj [(''id'', JStr (''rd_reply_'' @ string_of_nat now)),
                           (''reply_to'', JStr replyTo),
                           (''action'', JStr ''reply''),
                           (''content'', JStr (content params)),
                           (''status'', JStr ''simulated'')])))
         else if action params = ''repost'' then
           ([log0,
             (Info, ''Reddit: would crosspost '' @ postId @ '': \"''
                       @ substring0 50 (content params) @ ''...\"'')],
            Inr (JObj [(''id'', JStr (''rd_xpost_'' @ string_of_nat now)),
                       (''post_id'', JStr postId),
                       (''action'', JStr ''crosspost''),
                       (''content'', JStr (content params)),
                       (''status'', JStr ''simulated'')]))
         else ([log0], Inl (''Unsupported action: '' @ action params)))"

definition InstagramAgent_execute :: "nat \<Rightarrow> ExecuteParams \<Rightarrow> execute_outcome" where
  "InstagramAgent_execute now params =
     (let shortcode = extractIgShortcode (postUrl params);
          log0 = (Info, ''Instagram: '' @ action params @ '' on post '' @ shortcode)
      in if action params = ''comment'' then
           ([log0,
             (Info, ''Instagram: would comment on '' @ shortcode @ '': \"''
                       @ substring0 50 (content params) @ ''...\"'')],
            Inr (JObj [(''id'', JStr (''ig_comment_'' @ string_of_nat now)),
                       (''shortcode'', JStr shortcode),
                       (''action'', JStr ''comment''),
                       (''content'', JStr (content params)),
                       (''status'', JStr ''simulated'')]))
         else if action params = ''reply'' then
           (let replyTo = or_else (parentCommentId params) shortcode
            in ([log0,
                 (Info, ''Instagram: would reply to '' @ replyTo @ '': \"''
                           @ substring0 50 (content params) @ ''...\"'')],
                Inr (JObj [(''id'', JStr (''ig_reply_'' @ string_of_nat now)),
                           (''reply_to'', JStr replyTo),
                           (''action'', JStr ''reply''),
                           (''content'', JStr (content params)),
                           (''status'', JStr ''simulated'')])))
         else if action params = ''repost'' then
           ([log0,
             (Info, ''Instagram: would share '' @ shortcode @ '' to story'')],
            Inr (JObj [(''id'', JStr (''ig_story_'' @ string_of_nat now)),
                       (''shortcode'', JStr shortcode),
                       (''action'', JStr ''story_share''),
                       (''content'', JStr (content params)),
                       (''status'', JStr ''simulated'')]))
         else ([log0], Inl (''Unsupported action: '' @ action params)))"

text \<open>
  \<^verbatim>\<open>collectMetrics\<close> of an adapter maps every post id to an object of simulated metrics.
  \<open>rnd k\<close> is the value the \<open>k\<close>-th call of \<^verbatim>\<open>Math.random()\<close> returns, a rational in
  \<open>[0, 1)\<close>. The product with the range is taken exactly, where JavaScript rounds it to a
  double: a metric may differ by one from the code's when the exact product is just below
  an integer. The object literal reads the random source in the order of its keys.
\<close>

type_synonym rng = "nat \<Rightarrow> rat"

type_synonym metrics_outcome = "log_line list \<times> (string + json list)"

definition random_below :: "rng \<Rightarrow> nat \<Rightarrow> int \<Rightarrow> int" where
  "random_below rnd k n = \<lfloor>rnd k * of_int n\<rfloor>"

fun TwitterAgent_metrics :: "rng \<Rightarrow> nat \<Rightarrow> string list \<Rightarrow> json list" where
  "TwitterAgent_metrics rnd k [] = []"
| "TwitterAgent_metrics rnd k (pid # pids) =
     JObj [(''post_id'', JStr pid),
           (''impressions'', JNum (random_below rnd k 10000)),
           (''likes'', JNum (random_below rnd (k + 1) 200)),
           (''replies'', JNum (random_below rnd (k + 2) 50)),
           (''reposts'', JNum (random_below rnd (k + 3) 30)),
           (''clicks'', JNum (random_below rnd (k + 4) 100)),
           (''follower_delta'', JNum (random_below rnd (k + 5) 10 - 2)),
           (''status'', JStr ''simulated'')]
     # TwitterAgent_metrics rnd (k + 6) pids"

definition TwitterAgent_collectMetrics :: "rng \<Rightarrow> string list \<Rightarrow> metrics_outcome" where
  "TwitterAgent_collectMetrics rnd postIds =
     ([(Info, ''Twitter: collecting metrics for '' @ string_of_nat (length postIds)
                 @ '' posts'')],
      Inr (TwitterAgent_metrics rnd 0 postIds))"

fun RedditAgent_metrics :: "rng \<Rightarrow> nat \<Rightarrow> string list \<Rightarrow> json list" where
  "RedditAgent_metrics rnd k [] = []"
| "RedditAgent_metrics rnd k (pid # pids) =
     JObj [(''post_id'', JStr pid),
           (''impressions'', JNum (random_below rnd k 5000)),
           (''likes'', JNum (random_below rnd (k + 1) 300)),
           (''replies'', JNum (random_below rnd (k + 2) 40)),
           (''reposts'', JNum (random_below rnd (k + 3) 10)),
           (''clicks'', JNum 0),
           (''follower_delta'', JNum 0),
           (''status'', JStr ''simulated'')]
     # RedditAgent_metrics rnd (k + 4) pids"

definition RedditAgent_collectMetrics :: "rng \<Rightarrow> string list \<Rightarrow> metrics_outcome" where
  "RedditAgent_collectMetrics rnd postIds =
     ([(Info, ''Reddit: collecting metrics for '' @ string_of_nat (length postIds)
                 @ '' posts'')],
      Inr (RedditAgent_metrics rnd 0 postIds))"

fun InstagramAgent_metrics :: "rng \<Rightarrow> nat \<Rightarrow> string list \<Rightarrow> json list" where
  "InstagramAgent_metrics rnd k [] = []"
| "InstagramAgent_metrics rnd k (pid # pids) =
     JObj [(''post_id'', JStr pid),
           (''impressions'', JNum (random_below rnd k 15000)),
           (''likes'', JNum (random_below rnd (k + 1) 500)),
           (''replies'', JNum (random_below rnd (k + 2) 60)),
           (''reposts'', JNum (random_below rnd (k + 3) 20)),
           (''clicks'', JNum (random_below rnd (k + 4) 200)),
           (''follower_delta'', JNum (random_below rnd (k + 5) 15 - 3)),
           (''status'', JStr ''simulated'')]
     # InstagramAgent_metrics rnd (k + 6) pids"

definition InstagramAgent_collectMetrics :: "rng \<Rightarrow> string list \<Rightarrow> metrics_outcome" where
  "InstagramAgent_collectMetrics rnd postIds =
     ([(Info, ''Instagram: collecting metrics for '' @ string_of_nat (length postIds)
                 @ '' posts'')],
      Inr (InstagramAgent_metrics rnd 0 postIds))"

text \<open>The metric keys of a result, and a result whose metrics are all zero or missing.\<close>

definition metric_keys :: "string list" where
  "metric_keys =
     [''impressions'', ''likes'', ''replies'', ''reposts'', ''clicks'', ''follower_delta'']"

definition zeroed_or_absent :: "json \<Rightarrow> bool" where
  "zeroed_or_absent m = list_all (\<lambda>k. field m k = None \<or> field m k = Some (JNum 0)) metric_keys"

text \<open>A result without the id it was computed for.\<close>

fun without_post_id :: "json \<Rightarrow> json" where
  "without_post_id (JObj kvs) = JObj (filter (\<lambda>kv. fst kv \<noteq> ''post_id'') kvs)"
| "without_post_id v = v"

section \<open>Platform agent registry\<close>

datatype agent =
  Agent (execute: "nat \<Rightarrow> ExecuteParams \<Rightarrow> execute_outcome")
        (collectMetrics: "rng \<Rightarrow> string list \<Rightarrow> metrics_outcome")

definition TwitterAgent :: agent where
  "TwitterAgent = Agent TwitterAgent_execute TwitterAgent_collectMetrics"

definition RedditAgent :: agent where
  "RedditAgent = Agent RedditAgent_execute RedditAgent_collectMetrics"

definition InstagramAgent :: agent where
  "InstagramAgent = Agent InstagramAgent_execute InstagramAgent_collectMetrics"

text \<open>
  What \<^verbatim>\<open>platformAgents[platform]\<close> evaluates to. The registry is an object literal, so a
  key it does not own is looked up in \<^verbatim>\<open>Object.prototype\<close>: the names below yield a
  built-in function or object (truthy, with neither an \<^verbatim>\<open>execute\<close> nor a
  \<^verbatim>\<open>collectMetrics\<close> method), every other key yields \<^verbatim>\<open>undefined\<close>.
\<close>

datatype js_value = Undefined | Builtin | AgentObj agent

definition registered :: "(string \<times> agent) list" where
  "registered =
     [(''twitter'', TwitterAgent), (''reddit'', RedditAgent), (''instagram'', InstagramAgent)]"

definition Object_prototype_keys :: "string list" where
  "Object_prototype_keys =
     [''constructor'', ''__defineGetter__'', ''__defineSetter__'', ''hasOwnProperty'',
      ''__lookupGetter__'', ''__lookupSetter__'', ''isPrototypeOf'',
      ''propertyIsEnumerable'', ''toString'', ''valueOf'', ''__proto__'',
      ''toLocaleString'']"

definition platformAgents :: "string \<Rightarrow> js_value" where
  "platformAgents key =
     (case map_of registered key of
        Some a \<Rightarrow> AgentObj a
      | None \<Rightarrow> if key \<in> set Object_prototype_keys then Builtin else Undefined)"

section \<open>Bridge router\<close>

record ExecuteRequest =
  req_action :: string
  platform :: string
  post_url :: string
  req_content :: string
  parent_comment_id :: "string option"
  req_metadata :: "json option"

record MetricsRequest =
  metrics_platform :: string
  post_ids :: "string list"

record response =
  http_status :: nat
  body :: json

record handled =
  effects :: "effect list"
  reply :: response

text \<open>A line an adapter wrote, among the effects of the handler that called it.\<close>

fun logged_line :: "log_line \<Rightarrow> effect" where
  "logged_line (l, msg) = Log l msg"

text \<open>The UTF-8 bytes of the dash the log lines contain.\<close>

definition em_dash :: string where
  "em_dash = [CHR 0xE2, CHR 0x80, CHR 0x94]"

text \<open>How a template literal renders a value.\<close>

fun join_comma :: "string list \<Rightarrow> string" where
  "join_comma [] = []"
| "join_comma [s] = s"
| "join_comma (s # t # ss) = s @ '','' @ join_comma (t # ss)"

fun template_string :: "json \<Rightarrow> string" where
  "template_string JNull = ''null''"
| "template_string (JNum n) = string_of_number (Num n)"
| "template_string (JStr s) = s"
| "template_string (JArr xs) =
     join_comma (map (\<lambda>x. if x = JNull then [] else template_string x) xs)"
| "template_string (JObj kvs) = ''[object Object]''"

text \<open>The object the handler passes to \<^verbatim>\<open>agent.execute\<close>.\<close>

definition params_of :: "ExecuteRequest \<Rightarrow> ExecuteParams" where
  "params_of req =
     \<lparr>action = req_action req,
      postUrl = post_url req,
      content = req_content req,
      parentCommentId = parent_comment_id req,
      metadata = (case req_metadata req of
                    Some m \<Rightarrow> if truthy (Some m) then m else JObj []
                  | None \<Rightarrow> JObj [])\<rparr>"

text \<open>\<^verbatim>\<open>result?.id || uuidv4()\<close>; \<open>uuid\<close> is what \<^verbatim>\<open>uuidv4()\<close> returns when called.\<close>

definition platformPostId :: "json \<Rightarrow> string \<Rightarrow> json" where
  "platformPostId result uuid =
     (case field result ''id'' of
        Some v \<Rightarrow> if truthy (Some v) then v else JStr uuid
      | None \<Rightarrow> JStr uuid)"

text \<open>
  The handler of \<^verbatim>\<open>POST /api/execute\<close>, over the registry \<open>agents\<close>. It answers once;
  \<^verbatim>\<open>res.json\<close> without \<^verbatim>\<open>res.status\<close> answers with status 200. Calling a method that a
  truthy non-adapter value lacks throws a \<^verbatim>\<open>TypeError\<close> inside the \<^verbatim>\<open>try\<close> block.
\<close>

definition api_execute :: "(string \<Rightarrow> js_value) \<Rightarrow> string \<Rightarrow> nat \<Rightarrow> ExecuteRequest \<Rightarrow> handled" where
  "api_execute agents uuid now req =
     (let log0 = Log Info (''Execute: '' @ req_action req @ '' on '' @ platform req @ '' ''
                           @ em_dash @ '' '' @ substring0 60 (post_url req) @ ''...'');
          failed = (\<lambda>msg.
            (Log Error (''Execute failed: '' @ req_action req @ '' on '' @ platform req
                        @ '' '' @ em_dash @ '' '' @ msg),
             \<lparr>http_status = 500,
              body = JObj [(''status'', JStr ''error''),
                           (''error'', JStr msg),
                           (''platform'', JStr (platform req)),
                           (''action'', JStr (req_action req))]\<rparr>))
      in case agents (platform req) of
           Undefined \<Rightarrow>
             \<lparr>effects = [log0],
              reply = \<lparr>http_status = 400,
                       body = JObj [(''error'',
                                     JStr (''Unsupported platform: '' @ platform req))]\<rparr>\<rparr>
         | Builtin \<Rightarrow>
             \<lparr>effects = [log0, fst (failed ''agent.execute is not a function'')],
              reply = snd (failed ''agent.execute is not a function'')\<rparr>
         | AgentObj ag \<Rightarrow>
             (case execute ag now (params_of req) of
                (logs, Inr result) \<Rightarrow>
                  \<lparr>effects = [log0, ExecuteCalled (params_of req)] @ map logged_line logs @
                     [Log Info (''Execute success: '' @ req_action req @ '' on ''
                                @ platform req @ '' '' @ em_dash @ '' id=''
                                @ template_string (platformPostId result uuid))],
                   reply = \<lparr>http_status = 200,
                            body = JObj [(''status'', JStr ''success''),
                                         (''platform_post_id'', platformPostId result uuid),
                                         (''platform'', JStr (platform req)),
                                         (''action'', JStr (req_action req)),
                                         (''result'', result)]\<rparr>\<rparr>
              | (logs, Inl msg) \<Rightarrow>
                  \<lparr>effects = [log0, ExecuteCalled (params_of req)] @ map logged_line logs
                             @ [fst (failed msg)],
                   reply = snd (failed msg)\<rparr>))"

text \<open>The handler of \<^verbatim>\<open>POST /api/metrics\<close>.\<close>

definition api_metrics :: "(string \<Rightarrow> js_value) \<Rightarrow> rng \<Rightarrow> MetricsRequest \<Rightarrow> handled" where
  "api_metrics agents rnd req =
     (let log0 = Log Info (''Metrics: collecting for '' @ string_of_nat (length (post_ids req))
                           @ '' posts on '' @ metrics_platform req);
          failed = (\<lambda>msg.
            (Log Error (''Metrics failed for '' @ metrics_platform req @ '': '' @ msg),
             \<lparr>http_status = 500,
              body = JObj [(''error'', JStr msg),
                           (''platform'', JStr (metrics_platform req))]\<rparr>))
      in case agents (metrics_platform req) of
           Undefined \<Rightarrow>
             \<lparr>effects = [log0],
              reply = \<lparr>http_status = 400,
                       body = JObj [(''error'',
                                     JStr (''Unsupported platform: ''
                                           @ metrics_platform req))]\<rparr>\<rparr>
         | Builtin \<Rightarrow>
             \<lparr>effects = [log0, fst (failed ''agent.collectMetrics is not a function'')],
              reply = snd (failed ''agent.collectMetrics is not a function'')\<rparr>
         | AgentObj ag \<Rightarrow>
             (case collectMetrics ag rnd (post_ids req) of
                (logs, Inr metrics) \<Rightarrow>
                  \<lparr>effects = [log0, CollectMetricsCalled (post_ids req)] @ map logged_line logs,
                   reply = \<lparr>http_status = 200,
                            body = JObj [(''metrics'', JArr metrics),
                                         (''platform'', JStr (metrics_platform req))]\<rparr>\<rparr>
              | (logs, Inl msg) \<Rightarrow>
                  \<lparr>effects = [log0, CollectMetricsCalled (post_ids req)] @ map logged_line logs
                             @ [fst (failed msg)],
                   reply = snd (failed msg)\<rparr>))"

text \<open>The adapter calls among the effects of a handler.\<close>

fun is_adapter_call :: "effect \<Rightarrow> bool" where
  "is_adapter_call (ExecuteCalled _) = True"
| "is_adapter_call (CollectMetricsCalled _) = True"
| "is_adapter_call _ = False"

definition adapter_calls :: "handled \<Rightarrow> effect list" where
  "adapter_calls h = filter is_adapter_call (effects h)"

section \<open>Heartbeat daemon\<close>

text \<open>
  The module keeps one variable, \<^verbatim>\<open>heartbeatTask\<close>, holding a task of the cron library or
  \<^verbatim>\<open>null\<close>. The library is outside the repository: its registry is the list of the tasks
  it has created (a task's handle is its position), and \<open>accepts\<close> says for which
  expressions \<^verbatim>\<open>cron.schedule\<close> returns a task instead of throwing. A task created by
  \<^verbatim>\<open>cron.schedule\<close> runs until \<^verbatim>\<open>stop()\<close>; \<open>every\<close> is the interval its callback closes
  over.
\<close>

record cron_task =
  expression :: string
  every :: js_number
  running :: bool

record heartbeat_state =
  heartbeatTask :: "nat option"
  cron_tasks :: "cron_task list"
  logged :: "effect list"

datatype outcome = Returned | Threw

definition initial_state :: heartbeat_state where
  "initial_state = \<lparr>heartbeatTask = None, cron_tasks = [], logged = []\<rparr>"

definition cronExpr :: "js_number \<Rightarrow> string" where
  "cronExpr intervalMinutes = ''*/'' @ string_of_number intervalMinutes @ '' * * * *''"

definition startHeartbeat ::
  "(string \<Rightarrow> bool) \<Rightarrow> js_number \<Rightarrow> heartbeat_state \<Rightarrow> outcome \<times> heartbeat_state" where
  "startHeartbeat accepts intervalMinutes s =
     (case heartbeatTask s of
        Some t \<Rightarrow> (Returned, s\<lparr>logged := logged s @ [Log Warn ''Heartbeat already running'']\<rparr>)
      | None \<Rightarrow>
          if accepts (cronExpr intervalMinutes) then
            (Returned,
             s\<lparr>heartbeatTask := Some (length (cron_tasks s)),
               cron_tasks := cron_tasks s @
                 [\<lparr>expression = cronExpr intervalMinutes, every = intervalMinutes,
                   running = True\<rparr>],
               logged := logged s @
                 [Log Info (''Heartbeat daemon started '' @ em_dash @ '' ticking every ''
                            @ string_of_number intervalMinutes @ '' minutes'')]\<rparr>)
          else (Threw, s))"

definition stop_task :: "nat \<Rightarrow> cron_task list \<Rightarrow> cron_task list" where
  "stop_task t tasks = (if t < length tasks then tasks[t := (tasks ! t)\<lparr>running := False\<rparr>] else tasks)"

definition stopHeartbeat :: "heartbeat_state \<Rightarrow> heartbeat_state" where
  "stopHeartbeat s =
     (case heartbeatTask s of
        Some t \<Rightarrow>
          s\<lparr>heartbeatTask := None,
            cron_tasks := stop_task t (cron_tasks s),
            logged := logged s @ [Log Info ''Heartbeat daemon stopped'']\<rparr>
      | None \<Rightarrow> s)"

text \<open>The timers that fire: the running tasks of the registry, by handle.\<close>

definition running_tasks :: "heartbeat_state \<Rightarrow> nat list" where
  "running_tasks s = filter (\<lambda>i. running (cron_tasks s ! i)) [0..<length (cron_tasks s)]"

text \<open>The variable and the registry agree: the task held is the only one running.\<close>

definition handle_consistent :: "heartbeat_state \<Rightarrow> bool" where
  "handle_consistent s =
     (running_tasks s = (case heartbeatTask s of None \<Rightarrow> [] | Some t \<Rightarrow> [t]))"

text \<open>A sequence of calls of the module's two exported functions.\<close>

datatype call = Start js_number | Stop

fun run_calls :: "(string \<Rightarrow> bool) \<Rightarrow> call list \<Rightarrow> heartbeat_state \<Rightarrow> heartbeat_state" where
  "run_calls accepts [] s = s"
| "run_calls accepts (Start n # cs) s = run_calls accepts cs (snd (startHeartbeat accepts n s))"
| "run_calls accepts (Stop # cs) s = run_calls accepts cs (stopHeartbeat s)"

text \<open>
  One tick: the callback given to \<^verbatim>\<open>cron.schedule\<close>. \<open>env_url\<close> is the environment
  variable \<^verbatim>\<open>ORCHESTRATOR_URL\<close>; \<open>answer\<close> is what \<^verbatim>\<open>fetch\<close> does, resolving with a
  response of some status (\<^verbatim>\<open>response.ok\<close> is a status from 200 to 299) or rejecting.
\<close>

datatype fetch_result = Responded nat | Rejected string

definition notifyOrchestrator :: "string option \<Rightarrow> fetch_result \<Rightarrow> effect list" where
  "notifyOrchestrator env_url answer =
     (let orchestratorUrl = or_else env_url ''http://localhost:8000''
      in Fetch ''GET'' (orchestratorUrl @ ''/api/health'') #
         (case answer of
            Responded st \<Rightarrow>
              if 200 \<le> st \<and> st \<le> 299 then [Log Info ''Heartbeat: orchestrator is healthy'']
              else [Log Warn (''Heartbeat: orchestrator returned '' @ string_of_nat st)]
          | Rejected msg \<Rightarrow>
              [Log Error (''Heartbeat: orchestrator unreachable '' @ em_dash @ '' '' @ msg)]))"

definition heartbeat_tick :: "js_number \<Rightarrow> string option \<Rightarrow> fetch_result \<Rightarrow> effect list" where
  "heartbeat_tick intervalMinutes env_url answer =
     Log Info (''Heartbeat tick (every '' @ string_of_number intervalMinutes @ ''min)'')
     # notifyOrchestrator env_url answer"

text \<open>
  The requests that trigger a campaign's metrics collection and learning update, as the
  API client of the dashboard issues them (\<^verbatim>\<open>triggerMetrics\<close>, \<^verbatim>\<open>triggerLearning\<close>).
\<close>

definition triggerMetrics :: "string \<Rightarrow> string \<Rightarrow> effect" where
  "triggerMetrics base campaign_id =
     Fetch ''POST'' (base @ ''/api/campaigns/'' @ campaign_id @ ''/collect-metrics'')"

definition triggerLearning :: "string \<Rightarrow> string \<Rightarrow> effect" where
  "triggerLearning base campaign_id =
     Fetch ''POST'' (base @ ''/api/campaigns/'' @ campaign_id @ ''/learn'')"

fun is_request :: "effect \<Rightarrow> bool" where
  "is_request (Fetch _ _) = True"
| "is_request _ = False"

section \<open>Activity subscribers of the dashboard\<close>









section \<open>Campaign pipeline\<close>

text \<open>The stage table of the campaign page: key, label and description of each stage.\<close>

definition PIPELINE_STAGES :: "(string \<times> string \<times> string) list" where
  "PIPELINE_STAGES =
     [(''intent'', ''Intent Agent'', ''Extracting product intent & entities''),
      (''scouting'', ''Scout Agent'', ''Finding relevant social media posts''),
      (''vision'', ''Vision Agent'', ''Analyzing visual context''),
      (''strategy'', ''Strategy Agent'', ''Planning engagement strategy''),
      (''engagement'', ''Engagement'', ''Generating humanized comments'')]"

definition stage_order :: "string list" where
  "stage_order = map fst PIPELINE_STAGES"

record PipelineStatus =
  stage :: string
  completed :: "string list"
  error_detail :: "string option"

text \<open>
  Modelled from the spec: the Pipeline Orchestrator (\<^verbatim>\<open>runCycle\<close>, spec section 4.1), which
  writes the pipeline status, is not among the source files. The model follows the steps
  of the spec, one write of the status each. For every stage of the order in turn:
  step 1 sets \<open>stage\<close> to the stage name; step 2 calls the collaborator of the stage
  (\<open>collab\<close> gives the error detail when it fails, \<open>None\<close> when it succeeds); on success
  step 3 appends the stage name to \<open>completed\<close>; on failure step 4 sets \<open>stage\<close> to
  \<open>error\<close>, records the detail and stops the cycle; after the last stage has succeeded
  step 5 sets \<open>stage\<close> to \<open>completed\<close>. \<open>run_stages\<close> returns the statuses written, in
  order, by a cycle that still has the stages \<open>todo\<close> to run and has \<open>finished\<close> completed.
  \<open>runCycle\<close> is a cycle of a campaign that has completed nothing yet. The spec leaves
  open what a cycle triggered again after \<open>error\<close> or \<open>completed\<close> does to \<open>completed\<close>;
  the model does not cover it.
\<close>

fun run_stages ::
  "(string \<Rightarrow> string option) \<Rightarrow> string list \<Rightarrow> string list \<Rightarrow> PipelineStatus list" where
  "run_stages collab [] finished =
     [\<lparr>stage = ''completed'', completed = finished, error_detail = None\<rparr>]"
| "run_stages collab (s # todo) finished =
     \<lparr>stage = s, completed = finished, error_detail = None\<rparr> #
     (case collab s of
        Some detail \<Rightarrow>
          [\<lparr>stage = ''error'', completed = finished, error_detail = Some detail\<rparr>]
      | None \<Rightarrow>
          \<lparr>stage = s, completed = finished @ [s], error_detail = None\<rparr> #
          run_stages collab todo (finished @ [s]))"

definition runCycle :: "(string \<Rightarrow> string option) \<Rightarrow> PipelineStatus list" where
  "runCycle collab = run_stages collab stage_order []"




section \<open>Properties of the adapters\<close>

lemma all_le_Suc_split: "(\<forall>k\<le>Suc n. P k) \<longleftrightarrow> (P 0 \<and> (\<forall>k\<le>n. P (Suc k)))"
proof
  assume a: "\<forall>k\<le>Suc n. P k"
  show "P 0 \<and> (\<forall>k\<le>n. P (Suc k))"
  proof
    show "P 0" using a by blast
    show "\<forall>k\<le>n. P (Suc k)" using a by blast
  qed
next
  assume b: "P 0 \<and> (\<forall>k\<le>n. P (Suc k))"
  show "\<forall>k\<le>Suc n. P k"
  proof (intro allI impI)
    fix k assume "k \<le> Suc n"
    then show "P k" using b by (cases k) auto
  qed
qed

text \<open>The search fails exactly when the expression matches at no position of the string.\<close>

lemma search_None_iff:
  "search m s = None \<longleftrightarrow> (\<forall>k\<le>length s. m (drop k s) = None)"
proof (induction s)
  case Nil
  then show ?case by simp
next
  case (Cons c cs)
  have "(\<forall>k\<le>length (c # cs). m (drop k (c # cs)) = None)
        \<longleftrightarrow> (m (c # cs) = None \<and> (\<forall>k\<le>length cs. m (drop k cs) = None))"
    using all_le_Suc_split [of "length cs" "\<lambda>k. m (drop k (c # cs)) = None"] by simp
  then show ?case using Cons.IH by (cases "m (c # cs)") simp_all
qed

lemma extractTweetId_no_match:
  assumes "\<forall>k\<le>length url. match_here ''status/'' is_digit (drop k url) = None"
  shows "extractTweetId url = []"
proof -
  have "search (match_here ''status/'' is_digit) url = None"
    using assms search_None_iff by blast
  then show ?thesis by (simp add: extractTweetId_def)
qed

lemma extractRedditId_no_match:
  assumes "\<forall>k\<le>length url. match_here_i ''comments/'' is_alnum (drop k url) = None"
  shows "extractRedditId url = []"
proof -
  have "search (match_here_i ''comments/'' is_alnum) url = None"
    using assms search_None_iff by blast
  then show ?thesis by (simp add: extractRedditId_def)
qed

lemma extractIgShortcode_no_match:
  assumes "\<forall>k\<le>length url. match_ig (drop k url) = None"
  shows "extractIgShortcode url = []"
proof -
  have "search match_ig url = None"
    using assms search_None_iff by blast
  then show ?thesis by (simp add: extractIgShortcode_def)
qed

lemma TwitterAgent_execute_resolves:
  assumes "action p \<in> {''comment'', ''reply'', ''repost''}"
  shows "\<exists>r. snd (TwitterAgent_execute now p) = Inr r
             \<and> field r ''status'' = Some (JStr ''simulated'')"
proof -
  consider "action p = ''comment''" | "action p = ''reply''" | "action p = ''repost''"
    using assms by blast
  then show ?thesis
  proof cases
    case 1
    then show ?thesis by (simp add: TwitterAgent_execute_def Let_def)
  next
    case 2
    then show ?thesis by (simp add: TwitterAgent_execute_def Let_def)
  next
    case 3
    then show ?thesis by (simp add: TwitterAgent_execute_def Let_def)
  qed
qed

lemma RedditAgent_execute_resolves:
  assumes "action p \<in> {''comment'', ''reply'', ''repost''}"
  shows "\<exists>r. snd (RedditAgent_execute now p) = Inr r
             \<and> field r ''status'' = Some (JStr ''simulated'')"
proof -
  consider "action p = ''comment''" | "action p = ''reply''" | "action p = ''repost''"
    using assms by blast
  then show ?thesis
  proof cases
    case 1
    then show ?thesis by (simp add: RedditAgent_execute_def Let_def)
  next
    case 2
    then show ?thesis by (simp add: RedditAgent_execute_def Let_def)
  next
    case 3
    then show ?thesis by (simp add: RedditAgent_execute_def Let_def)
  qed
qed

lemma InstagramAgent_execute_resolves:
  assumes "action p \<in> {''comment'', ''reply'', ''repost''}"
  shows "\<exists>r. snd (InstagramAgent_execute now p) = Inr r
             \<and> field r ''status'' = Some (JStr ''simulated'')"
proof -
  consider "action p = ''comment''" | "action p = ''reply''" | "action p = ''repost''"
    using assms by blast
  then show ?thesis
  proof cases
    case 1
    then show ?thesis by (simp add: InstagramAgent_execute_def Let_def)
  next
    case 2
    then show ?thesis by (simp add: InstagramAgent_execute_def Let_def)
  next
    case 3
    then show ?thesis by (simp add: InstagramAgent_execute_def Let_def)
  qed
qed

text \<open>
  Claim C9. For each of the three adapters, every action among comment, reply and repost
  and every post URL, \<^verbatim>\<open>execute\<close> returns an object whose status is \<open>simulated\<close>; it does
  not throw. A URL in which the adapter's expression matches at no position gives the
  empty string as the extracted post id.
\<close>

theorem execute_resolves_for_every_url:
  assumes "action p \<in> {''comment'', ''reply'', ''repost''}"
  shows "(\<exists>r. snd (TwitterAgent_execute now p) = Inr r
              \<and> field r ''status'' = Some (JStr ''simulated''))
       \<and> (\<exists>r. snd (RedditAgent_execute now p) = Inr r
              \<and> field r ''status'' = Some (JStr ''simulated''))
       \<and> (\<exists>r. snd (InstagramAgent_execute now p) = Inr r
              \<and> field r ''status'' = Some (JStr ''simulated''))
       \<and> ((\<forall>k\<le>length (postUrl p).
              match_here ''status/'' is_digit (drop k (postUrl p)) = None)
            \<longrightarrow> extractTweetId (postUrl p) = [])
       \<and> ((\<forall>k\<le>length (postUrl p).
              match_here_i ''comments/'' is_alnum (drop k (postUrl p)) = None)
            \<longrightarrow> extractRedditId (postUrl p) = [])
       \<and> ((\<forall>k\<le>length (postUrl p). match_ig (drop k (postUrl p)) = None)
            \<longrightarrow> extractIgShortcode (postUrl p) = [])"
proof -
  note TwitterAgent_execute_resolves [OF assms, of now]
  moreover note RedditAgent_execute_resolves [OF assms, of now]
  moreover note InstagramAgent_execute_resolves [OF assms, of now]
  moreover note extractTweetId_no_match [of "postUrl p"]
  moreover note extractRedditId_no_match [of "postUrl p"]
  moreover note extractIgShortcode_no_match [of "postUrl p"]
  ultimately show ?thesis by blast
qed

text \<open>The theorem at a repost of a text that is no URL of any platform.\<close>

theorem execute_resolves_at_unparseable_url:
  "(\<exists>r. snd (TwitterAgent_execute 1700000000000
            \<lparr>action = ''repost'', postUrl = ''not a url'', content = ''hello'',
             parentCommentId = None, metadata = JObj []\<rparr>) = Inr r
        \<and> field r ''status'' = Some (JStr ''simulated''))
   \<and> (\<exists>r. snd (RedditAgent_execute 1700000000000
            \<lparr>action = ''repost'', postUrl = ''not a url'', content = ''hello'',
             parentCommentId = None, metadata = JObj []\<rparr>) = Inr r
        \<and> field r ''status'' = Some (JStr ''simulated''))
   \<and> (\<exists>r. snd (InstagramAgent_execute 1700000000000
            \<lparr>action = ''repost'', postUrl = ''not a url'', content = ''hello'',
             parentCommentId = None, metadata = JObj []\<rparr>) = Inr r
        \<and> field r ''status'' = Some (JStr ''simulated''))
   \<and> extractTweetId ''not a url'' = []
   \<and> extractRedditId ''not a url'' = []
   \<and> extractIgShortcode ''not a url'' = []"
proof -
  let ?p = "\<lparr>action = ''repost'', postUrl = ''not a url'', content = ''hello'',
             parentCommentId = None, metadata = JObj []\<rparr>"
  have a: "action ?p \<in> {''comment'', ''reply'', ''repost''}" by simp
  have "search (match_here ''status/'' is_digit) ''not a url'' = None"
    by (simp add: match_here_def)
  then have t: "\<forall>k\<le>length (postUrl ?p).
                  match_here ''status/'' is_digit (drop k (postUrl ?p)) = None"
    using search_None_iff [of "match_here ''status/'' is_digit" "''not a url''"] by simp
  have "search (match_here_i ''comments/'' is_alnum) ''not a url'' = None"
    by (simp add: match_here_i_def ascii_lower_def)
  then have r: "\<forall>k\<le>length (postUrl ?p).
                  match_here_i ''comments/'' is_alnum (drop k (postUrl ?p)) = None"
    using search_None_iff [of "match_here_i ''comments/'' is_alnum" "''not a url''"] by simp
  have "search match_ig ''not a url'' = None"
    by (simp add: match_ig_def match_here_def)
  then have i: "\<forall>k\<le>length (postUrl ?p). match_ig (drop k (postUrl ?p)) = None"
    using search_None_iff [of match_ig "''not a url''"] by simp
  from execute_resolves_for_every_url [OF a, of 1700000000000] t r i
  show ?thesis by simp
qed

section \<open>Properties of the bridge router\<close>

lemma adapter_lines_are_not_calls: "filter is_adapter_call (map logged_line logs) = []"
  by (induction logs) auto

text \<open>
  Claim C2. When the platform resolves to an adapter and the adapter's \<^verbatim>\<open>execute\<close> throws,
  the handler answers once, with status 500 and a body of status \<open>error\<close> that carries
  the message, the platform and the action; the adapter was called exactly once, so the
  gateway did not retry. The registry is arbitrary: this holds for every adapter.
\<close>

theorem adapter_failure_surfaced_once:
  assumes "agents (platform req) = AgentObj ag"
      and "execute ag now (params_of req) = (logs, Inl msg)"
  shows "reply (api_execute agents uuid now req) =
           \<lparr>http_status = 500,
            body = JObj [(''status'', JStr ''error''), (''error'', JStr msg),
                         (''platform'', JStr (platform req)), (''action'', JStr (req_action req))]\<rparr>
         \<and> adapter_calls (api_execute agents uuid now req) = [ExecuteCalled (params_of req)]"
  using assms by (simp add: api_execute_def adapter_calls_def adapter_lines_are_not_calls)

text \<open>The theorem at an action the Twitter adapter does not support.\<close>

theorem adapter_failure_witness:
  "platformAgents ''twitter'' = AgentObj TwitterAgent
   \<and> execute TwitterAgent 1700000000000
        (params_of \<lparr>req_action = ''like'', platform = ''twitter'',
                    post_url = ''https://x.com/a/status/1'', req_content = ''hello'',
                    parent_comment_id = None, req_metadata = None\<rparr>)
      = ([(Info, ''Twitter: like on tweet 1'')], Inl ''Unsupported action: like'')
   \<and> reply (api_execute platformAgents ''uuid'' 1700000000000
        \<lparr>req_action = ''like'', platform = ''twitter'',
         post_url = ''https://x.com/a/status/1'', req_content = ''hello'',
         parent_comment_id = None, req_metadata = None\<rparr>)
      = \<lparr>http_status = 500,
         body = JObj [(''status'', JStr ''error''), (''error'', JStr ''Unsupported action: like''),
                      (''platform'', JStr ''twitter''), (''action'', JStr ''like'')]\<rparr>
   \<and> adapter_calls (api_execute platformAgents ''uuid'' 1700000000000
        \<lparr>req_action = ''like'', platform = ''twitter'',
         post_url = ''https://x.com/a/status/1'', req_content = ''hello'',
         parent_comment_id = None, req_metadata = None\<rparr>)
      = [ExecuteCalled \<lparr>action = ''like'', postUrl = ''https://x.com/a/status/1'',
                        content = ''hello'', parentCommentId = None, metadata = JObj []\<rparr>]"
proof -
  let ?req = "\<lparr>req_action = ''like'', platform = ''twitter'',
               post_url = ''https://x.com/a/status/1'', req_content = ''hello'',
               parent_comment_id = None, req_metadata = None\<rparr>"
  have a: "platformAgents (platform ?req) = AgentObj TwitterAgent"
    by (simp add: platformAgents_def registered_def)
  have b: "execute TwitterAgent 1700000000000 (params_of ?req)
           = ([(Info, ''Twitter: like on tweet 1'')], Inl ''Unsupported action: like'')"
    by (simp add: TwitterAgent_def TwitterAgent_execute_def params_of_def extractTweetId_def
        match_here_def is_digit_def)
  from adapter_failure_surfaced_once
         [where agents = platformAgents and req = ?req and uuid = "''uuid''", OF a b] a b
  show ?thesis by (simp add: params_of_def)
qed

text \<open>
  A platform that is neither registered nor a member of \<^verbatim>\<open>Object.prototype\<close> is rejected
  with status 400 before any adapter is called, on both endpoints; and no platform outside
  the registry ever reaches an adapter or gets the answer of a success.
\<close>

lemma unsupported_platform_rejected:
  assumes "map_of registered (platform req) = None" and "platform req \<notin> set Object_prototype_keys"
  shows "reply (api_execute platformAgents uuid now req) =
           \<lparr>http_status = 400,
            body = JObj [(''error'', JStr (''Unsupported platform: '' @ platform req))]\<rparr>
         \<and> adapter_calls (api_execute platformAgents uuid now req) = []"
  using assms by (simp add: api_execute_def platformAgents_def adapter_calls_def)

lemma unsupported_metrics_platform_rejected:
  assumes "map_of registered (metrics_platform req) = None"
      and "metrics_platform req \<notin> set Object_prototype_keys"
  shows "reply (api_metrics platformAgents rnd req) =
           \<lparr>http_status = 400,
            body = JObj [(''error'', JStr (''Unsupported platform: '' @ metrics_platform req))]\<rparr>
         \<and> adapter_calls (api_metrics platformAgents rnd req) = []"
  using assms by (simp add: api_metrics_def platformAgents_def adapter_calls_def)

lemma unregistered_platform_never_succeeds:
  assumes "map_of registered (platform req) = None"
  shows "http_status (reply (api_execute platformAgents uuid now req)) \<noteq> 200
         \<and> adapter_calls (api_execute platformAgents uuid now req) = []"
  using assms by (simp add: api_execute_def platformAgents_def adapter_calls_def)

lemma unregistered_metrics_platform_never_succeeds:
  assumes "map_of registered (metrics_platform req) = None"
  shows "http_status (reply (api_metrics platformAgents rnd req)) \<noteq> 200
         \<and> adapter_calls (api_metrics platformAgents rnd req) = []"
  using assms by (simp add: api_metrics_def platformAgents_def adapter_calls_def)

text \<open>
  Claim C1. The platform \<open>constructor\<close> is not registered, yet the check
  \<^verbatim>\<open>if (!agent)\<close> lets it pass: the lookup finds the member inherited from
  \<^verbatim>\<open>Object.prototype\<close>. Both endpoints then answer with status 500 and the message of the
  \<^verbatim>\<open>TypeError\<close>, not with status 400 and \<open>Unsupported platform\<close>.
\<close>

theorem inherited_key_passes_platform_check:
  "map_of registered ''constructor'' = None
   \<and> reply (api_execute platformAgents ''uuid'' 1700000000000
        \<lparr>req_action = ''comment'', platform = ''constructor'',
         post_url = ''https://x.com/a/status/1'', req_content = ''hello'',
         parent_comment_id = None, req_metadata = None\<rparr>)
      = \<lparr>http_status = 500,
         body = JObj [(''status'', JStr ''error''),
                      (''error'', JStr ''agent.execute is not a function''),
                      (''platform'', JStr ''constructor''), (''action'', JStr ''comment'')]\<rparr>
   \<and> reply (api_metrics platformAgents (\<lambda>k. 0)
        \<lparr>metrics_platform = ''constructor'', post_ids = [''1'']\<rparr>)
      = \<lparr>http_status = 500,
         body = JObj [(''error'', JStr ''agent.collectMetrics is not a function''),
                      (''platform'', JStr ''constructor'')]\<rparr>"
  by (simp add: api_execute_def api_metrics_def platformAgents_def registered_def
      Object_prototype_keys_def)

text \<open>
  The post id of a successful comment on Twitter is the prefix \<open>tw_reply_\<close> and the
  clock reading: it depends on neither the post, the content nor the caller, and two
  successful calls get different ids whenever their clock readings differ.
\<close>

lemma execute_post_id_from_clock:
  assumes "platform req = ''twitter''" and "req_action req = ''comment''"
  shows "field (body (reply (api_execute platformAgents uuid now req))) ''platform_post_id''
         = Some (JStr (''tw_reply_'' @ string_of_nat now))"
proof -
  have a: "platformAgents (platform req) = AgentObj TwitterAgent"
    using assms(1) by (simp add: platformAgents_def registered_def)
  have b: "snd (execute TwitterAgent now (params_of req))
           = Inr (JObj [(''id'', JStr (''tw_reply_'' @ string_of_nat now)),
                        (''tweet_id'', JStr (extractTweetId (post_url req))),
                        (''action'', JStr ''reply''),
                        (''content'', JStr (req_content req)),
                        (''status'', JStr ''simulated'')])"
    using assms(2)
    by (simp add: TwitterAgent_def TwitterAgent_execute_def params_of_def Let_def
        del: string_of_nat.simps)
  obtain logs where c: "execute TwitterAgent now (params_of req)
           = (logs, Inr (JObj [(''id'', JStr (''tw_reply_'' @ string_of_nat now)),
                        (''tweet_id'', JStr (extractTweetId (post_url req))),
                        (''action'', JStr ''reply''),
                        (''content'', JStr (req_content req)),
                        (''status'', JStr ''simulated'')]))"
    using b by (cases "execute TwitterAgent now (params_of req)") (simp del: string_of_nat.simps)
  show ?thesis
    using a c by (simp add: api_execute_def platformPostId_def del: string_of_nat.simps)
qed

lemma digit_inj:
  assumes "a < 10" and "b < 10" and "''0123456789'' ! a = ''0123456789'' ! b"
  shows "a = b"
proof -
  have "distinct ''0123456789''" by simp
  moreover have "a < length ''0123456789''" "b < length ''0123456789''" using assms by simp_all
  ultimately show ?thesis using assms(3) by (simp only: nth_eq_iff_index_eq)
qed

lemma string_of_nat_small: "n < 10 \<Longrightarrow> string_of_nat n = [''0123456789'' ! n]"
  by (subst string_of_nat.simps) (simp del: string_of_nat.simps)

lemma string_of_nat_large:
  "\<not> n < 10 \<Longrightarrow>
   string_of_nat n = string_of_nat (n div 10) @ [''0123456789'' ! (n mod 10)]"
  by (subst string_of_nat.simps) (simp del: string_of_nat.simps)

lemma string_of_nat_nonempty: "string_of_nat n \<noteq> []"
  by (cases "n < 10") (simp_all add: string_of_nat_small string_of_nat_large
      del: string_of_nat.simps)

lemma string_of_nat_inj: "string_of_nat n = string_of_nat m \<Longrightarrow> n = m"
proof (induction n arbitrary: m rule: string_of_nat.induct)
  case (1 n)
  show ?case
  proof (cases "n < 10")
    case True
    show ?thesis
    proof (cases "m < 10")
      case m: True
      have "''0123456789'' ! n = ''0123456789'' ! m"
        using "1.prems" by (simp add: string_of_nat_small True m del: string_of_nat.simps)
      then show ?thesis using digit_inj [OF True m] by simp
    next
      case m: False
      have "[''0123456789'' ! n] = string_of_nat (m div 10) @ [''0123456789'' ! (m mod 10)]"
        using "1.prems" by (simp only: string_of_nat_small [OF True] string_of_nat_large [OF m])
      then have "string_of_nat (m div 10) = []" by (simp del: string_of_nat.simps)
      then show ?thesis using string_of_nat_nonempty by blast
    qed
  next
    case False
    show ?thesis
    proof (cases "m < 10")
      case m: True
      have "string_of_nat (n div 10) @ [''0123456789'' ! (n mod 10)] = [''0123456789'' ! m]"
        using "1.prems" by (simp only: string_of_nat_small [OF m] string_of_nat_large [OF False])
      then have "string_of_nat (n div 10) = []" by (simp del: string_of_nat.simps)
      then show ?thesis using string_of_nat_nonempty by blast
    next
      case m: False
      have "string_of_nat (n div 10) @ [''0123456789'' ! (n mod 10)]
            = string_of_nat (m div 10) @ [''0123456789'' ! (m mod 10)]"
        using "1.prems" by (simp only: string_of_nat_large [OF m] string_of_nat_large [OF False])
      then have a: "string_of_nat (n div 10) = string_of_nat (m div 10)"
        and b: "''0123456789'' ! (n mod 10) = ''0123456789'' ! (m mod 10)"
        by (simp_all del: string_of_nat.simps)
      have d: "n div 10 = m div 10" using "1.IH" [OF False a] .
      have "n mod 10 < 10" "m mod 10 < 10" by simp_all
      then have e: "n mod 10 = m mod 10" using b by (rule digit_inj)
      have "n = 10 * (n div 10) + n mod 10" by simp
      also have "\<dots> = 10 * (m div 10) + m mod 10" by (simp only: d e)
      also have "\<dots> = m" by simp
      finally show ?thesis .
    qed
  qed
qed

lemma different_millisecond_different_post_id:
  assumes "platform req = ''twitter''" and "req_action req = ''comment''"
      and "platform req' = ''twitter''" and "req_action req' = ''comment''"
      and "now \<noteq> now'"
  shows "field (body (reply (api_execute platformAgents uuid now req))) ''platform_post_id''
         \<noteq> field (body (reply (api_execute platformAgents uuid' now' req'))) ''platform_post_id''"
proof -
  have "string_of_nat now \<noteq> string_of_nat now'"
    using assms(5) string_of_nat_inj by blast
  then show ?thesis
    unfolding execute_post_id_from_clock [OF assms(1,2)] execute_post_id_from_clock [OF assms(3,4)]
    by (simp del: string_of_nat.simps)
qed

text \<open>
  Claim C6. Two requests for different posts with different contents, handled while
  \<^verbatim>\<open>Date.now()\<close> returns the same millisecond, both succeed and both get the post id
  \<open>tw_reply_1700000000000\<close>: the id of a successful call is not always fresh.
\<close>

theorem same_millisecond_same_post_id:
  "reply (api_execute platformAgents ''uuid-1'' 1700000000000
        \<lparr>req_action = ''comment'', platform = ''twitter'',
         post_url = ''https://x.com/a/status/1'', req_content = ''first'',
         parent_comment_id = None, req_metadata = None\<rparr>)
     = \<lparr>http_status = 200,
        body = JObj [(''status'', JStr ''success''),
                     (''platform_post_id'', JStr ''tw_reply_1700000000000''),
                     (''platform'', JStr ''twitter''), (''action'', JStr ''comment''),
                     (''result'', JObj [(''id'', JStr ''tw_reply_1700000000000''),
                                        (''tweet_id'', JStr ''1''),
                                        (''action'', JStr ''reply''),
                                        (''content'', JStr ''first''),
                                        (''status'', JStr ''simulated'')])]\<rparr>
   \<and> reply (api_execute platformAgents ''uuid-2'' 1700000000000
        \<lparr>req_action = ''comment'', platform = ''twitter'',
         post_url = ''https://x.com/b/status/2'', req_content = ''second'',
         parent_comment_id = None, req_metadata = None\<rparr>)
     = \<lparr>http_status = 200,
        body = JObj [(''status'', JStr ''success''),
                     (''platform_post_id'', JStr ''tw_reply_1700000000000''),
                     (''platform'', JStr ''twitter''), (''action'', JStr ''comment''),
                     (''result'', JObj [(''id'', JStr ''tw_reply_1700000000000''),
                                        (''tweet_id'', JStr ''2''),
                                        (''action'', JStr ''reply''),
                                        (''content'', JStr ''second''),
                                        (''status'', JStr ''simulated'')])]\<rparr>"
  by (simp add: api_execute_def platformAgents_def registered_def TwitterAgent_def
      TwitterAgent_execute_def params_of_def platformPostId_def extractTweetId_def
      match_here_def is_digit_def Let_def)

section \<open>Properties of the heartbeat daemon\<close>

lemma running_tasks_after_schedule:
  assumes "running_tasks s = []"
  shows "running_tasks (s\<lparr>heartbeatTask := h,
                           cron_tasks := cron_tasks s @ [\<lparr>expression = e, every = n, running = True\<rparr>],
                           logged := l\<rparr>) = [length (cron_tasks s)]"
proof -
  let ?ts = "cron_tasks s"
  let ?new = "\<lparr>expression = e, every = n, running = True\<rparr>"
  have "filter (\<lambda>i. running ((?ts @ [?new]) ! i)) [0..<length ?ts]
        = filter (\<lambda>i. running (?ts ! i)) [0..<length ?ts]"
    by (rule filter_cong) (simp_all add: nth_append)
  then show ?thesis using assms by (simp add: running_tasks_def)
qed

lemma running_tasks_after_stop:
  assumes "running_tasks s = [t]"
  shows "running_tasks (s\<lparr>heartbeatTask := h, cron_tasks := stop_task t (cron_tasks s),
                           logged := l\<rparr>) = []"
proof -
  let ?ts = "cron_tasks s"
  have mem: "\<And>i. i \<in> set (running_tasks s) \<longleftrightarrow> i = t" using assms by simp
  have t: "t < length ?ts" using mem [of t] by (simp add: running_tasks_def)
  have only: "\<And>i. i < length ?ts \<Longrightarrow> running (?ts ! i) \<Longrightarrow> i = t"
  proof -
    fix i assume "i < length ?ts" and "running (?ts ! i)"
    then have "i \<in> set (running_tasks s)" by (simp add: running_tasks_def)
    then show "i = t" using mem by blast
  qed
  have "\<And>i. i < length ?ts \<Longrightarrow> \<not> running (stop_task t ?ts ! i)"
  proof -
    fix i assume i: "i < length ?ts"
    show "\<not> running (stop_task t ?ts ! i)"
    proof (cases "i = t")
      case True
      then show ?thesis using t by (simp add: stop_task_def)
    next
      case False
      then show ?thesis using i t only by (auto simp: stop_task_def)
    qed
  qed
  moreover have "length (stop_task t ?ts) = length ?ts" by (simp add: stop_task_def)
  ultimately show ?thesis by (simp add: running_tasks_def filter_empty_conv)
qed

lemma startHeartbeat_consistent:
  assumes "handle_consistent s"
  shows "handle_consistent (snd (startHeartbeat accepts n s))"
proof (cases "heartbeatTask s")
  case None
  then have r: "running_tasks s = []" using assms by (simp add: handle_consistent_def)
  show ?thesis
  proof (cases "accepts (cronExpr n)")
    case True
    then show ?thesis
      using None running_tasks_after_schedule [OF r]
      by (simp add: startHeartbeat_def handle_consistent_def)
  next
    case False
    then show ?thesis using None assms by (simp add: startHeartbeat_def)
  qed
next
  case (Some t)
  have "running_tasks (s\<lparr>logged := logged s @ [Log Warn ''Heartbeat already running'']\<rparr>)
        = running_tasks s"
    by (simp add: running_tasks_def)
  then show ?thesis using Some assms by (simp add: startHeartbeat_def handle_consistent_def)
qed

lemma stopHeartbeat_consistent:
  assumes "handle_consistent s"
  shows "handle_consistent (stopHeartbeat s)"
proof (cases "heartbeatTask s")
  case None
  then show ?thesis using assms by (simp add: stopHeartbeat_def)
next
  case (Some t)
  then have "running_tasks s = [t]" using assms by (simp add: handle_consistent_def)
  from running_tasks_after_stop [OF this] Some show ?thesis
    by (simp add: stopHeartbeat_def handle_consistent_def)
qed

lemma initial_state_consistent: "handle_consistent initial_state"
  by (simp add: handle_consistent_def initial_state_def running_tasks_def)

lemma run_calls_consistent:
  "handle_consistent s \<Longrightarrow> handle_consistent (run_calls accepts cs s)"
proof (induction cs arbitrary: s)
  case Nil
  then show ?case by simp
next
  case (Cons c cs)
  then show ?case
    by (cases c) (simp_all add: startHeartbeat_consistent stopHeartbeat_consistent)
qed

lemma consistent_at_most_one: "handle_consistent s \<Longrightarrow> length (running_tasks s) \<le> 1"
  by (cases "heartbeatTask s") (simp_all add: handle_consistent_def)

text \<open>
  Claim C5. While a task is held, \<^verbatim>\<open>startHeartbeat\<close> only logs a warning: the variable and
  the registry of cron tasks are unchanged, so no second timer exists. Whatever sequence
  of \<^verbatim>\<open>startHeartbeat\<close> and \<^verbatim>\<open>stopHeartbeat\<close> calls the process makes, at most one task
  is running.
\<close>

theorem startHeartbeat_twice_is_noop:
  "(heartbeatTask s = Some t \<longrightarrow>
      startHeartbeat accepts n s
        = (Returned, s\<lparr>logged := logged s @ [Log Warn ''Heartbeat already running'']\<rparr>)
      \<and> heartbeatTask (snd (startHeartbeat accepts n s)) = heartbeatTask s
      \<and> cron_tasks (snd (startHeartbeat accepts n s)) = cron_tasks s)
   \<and> length (running_tasks (run_calls accepts calls initial_state)) \<le> 1"
proof -
  have "length (running_tasks (run_calls accepts calls initial_state)) \<le> 1"
    using run_calls_consistent [OF initial_state_consistent] consistent_at_most_one by blast
  then show ?thesis by (simp add: startHeartbeat_def)
qed

text \<open>The theorem at a second start, five minutes, while a task of thirty minutes runs.\<close>

theorem startHeartbeat_twice_witness:
  "heartbeatTask \<lparr>heartbeatTask = Some 0,
                  cron_tasks = [\<lparr>expression = ''*/30 * * * *'', every = Num 30, running = True\<rparr>],
                  logged = []\<rparr> = Some 0
   \<and> startHeartbeat (\<lambda>e. True) (Num 5)
        \<lparr>heartbeatTask = Some 0,
         cron_tasks = [\<lparr>expression = ''*/30 * * * *'', every = Num 30, running = True\<rparr>],
         logged = []\<rparr>
      = (Returned,
         \<lparr>heartbeatTask = Some 0,
          cron_tasks = [\<lparr>expression = ''*/30 * * * *'', every = Num 30, running = True\<rparr>],
          logged = [Log Warn ''Heartbeat already running'']\<rparr>)
   \<and> length (running_tasks (run_calls (\<lambda>e. True) [Start (Num 30), Start (Num 5)] initial_state)) \<le> 1"
  using startHeartbeat_twice_is_noop
    [where s = "\<lparr>heartbeatTask = Some 0,
                  cron_tasks = [\<lparr>expression = ''*/30 * * * *'', every = Num 30, running = True\<rparr>],
                  logged = []\<rparr>"
       and t = 0 and accepts = "\<lambda>e. True" and n = "Num 5"
       and calls = "[Start (Num 30), Start (Num 5)]"]
  by simp

lemma startHeartbeat_fresh:
  assumes "handle_consistent u" and "heartbeatTask u = None" and "accepts (cronExpr m)"
  shows "fst (startHeartbeat accepts m u) = Returned
         \<and> heartbeatTask (snd (startHeartbeat accepts m u)) = Some (length (cron_tasks u))
         \<and> running_tasks (snd (startHeartbeat accepts m u)) = [length (cron_tasks u)]
         \<and> cron_tasks (snd (startHeartbeat accepts m u)) ! length (cron_tasks u)
             = \<lparr>expression = cronExpr m, every = m, running = True\<rparr>"
proof -
  have r: "running_tasks u = []" using assms by (simp add: handle_consistent_def)
  show ?thesis
    using assms running_tasks_after_schedule [OF r] by (simp add: startHeartbeat_def)
qed

lemma stopHeartbeat_clears: "heartbeatTask (stopHeartbeat s) = None"
  by (cases "heartbeatTask s") (simp_all add: stopHeartbeat_def)

text \<open>
  Claim C10. \<^verbatim>\<open>stopHeartbeat\<close> with no task held changes nothing. From any state the module
  reaches, \<^verbatim>\<open>startHeartbeat\<close> followed by \<^verbatim>\<open>stopHeartbeat\<close> leaves no task held and no
  task running; a start after that returns with a new task held, the only one running and
  carrying the new expression, as a start from the initial state does.
\<close>

theorem start_stop_round_trip:
  "(heartbeatTask s = None \<longrightarrow> stopHeartbeat s = s)
   \<and> (let s2 = stopHeartbeat (snd (startHeartbeat accepts n (run_calls accepts calls initial_state)))
      in heartbeatTask s2 = None \<and> running_tasks s2 = []
         \<and> (accepts (cronExpr m) \<longrightarrow>
              fst (startHeartbeat accepts m s2) = Returned
              \<and> heartbeatTask (snd (startHeartbeat accepts m s2)) = Some (length (cron_tasks s2))
              \<and> running_tasks (snd (startHeartbeat accepts m s2)) = [length (cron_tasks s2)]
              \<and> cron_tasks (snd (startHeartbeat accepts m s2)) ! length (cron_tasks s2)
                  = \<lparr>expression = cronExpr m, every = m, running = True\<rparr>))
   \<and> (accepts (cronExpr m) \<longrightarrow>
        fst (startHeartbeat accepts m initial_state) = Returned
        \<and> heartbeatTask (snd (startHeartbeat accepts m initial_state)) = Some 0
        \<and> running_tasks (snd (startHeartbeat accepts m initial_state)) = [0]
        \<and> cron_tasks (snd (startHeartbeat accepts m initial_state)) ! 0
            = \<lparr>expression = cronExpr m, every = m, running = True\<rparr>)"
proof -
  define s2 where "s2 = stopHeartbeat (snd (startHeartbeat accepts n (run_calls accepts calls initial_state)))"
  have c: "handle_consistent s2"
    unfolding s2_def
    by (intro stopHeartbeat_consistent startHeartbeat_consistent run_calls_consistent
        initial_state_consistent)
  have h: "heartbeatTask s2 = None" unfolding s2_def by (rule stopHeartbeat_clears)
  have r: "running_tasks s2 = []" using c h by (simp add: handle_consistent_def)
  have a: "heartbeatTask s = None \<longrightarrow> stopHeartbeat s = s" by (simp add: stopHeartbeat_def)
  have i: "heartbeatTask initial_state = None" "length (cron_tasks initial_state) = 0"
    by (simp_all add: initial_state_def)
  note f2 = startHeartbeat_fresh [OF c h, of accepts m]
  note f0 = startHeartbeat_fresh [OF initial_state_consistent i(1), of accepts m]
  show ?thesis
    unfolding Let_def s2_def [symmetric] using a h r f2 f0 i(2) by simp
qed

text \<open>The theorem from the initial state, with a library that accepts every expression.\<close>

theorem start_stop_round_trip_witness:
  "heartbeatTask initial_state = None
   \<and> stopHeartbeat initial_state = initial_state
   \<and> heartbeatTask (stopHeartbeat (snd (startHeartbeat (\<lambda>e. True) (Num 30) initial_state))) = None
   \<and> running_tasks (stopHeartbeat (snd (startHeartbeat (\<lambda>e. True) (Num 30) initial_state))) = []
   \<and> heartbeatTask (snd (startHeartbeat (\<lambda>e. True) (Num 15)
        (stopHeartbeat (snd (startHeartbeat (\<lambda>e. True) (Num 30) initial_state))))) = Some 1
   \<and> running_tasks (snd (startHeartbeat (\<lambda>e. True) (Num 15)
        (stopHeartbeat (snd (startHeartbeat (\<lambda>e. True) (Num 30) initial_state))))) = [1]
   \<and> heartbeatTask (snd (startHeartbeat (\<lambda>e. True) (Num 15) initial_state)) = Some 0
   \<and> running_tasks (snd (startHeartbeat (\<lambda>e. True) (Num 15) initial_state)) = [0]"
proof -
  have l: "length (cron_tasks (stopHeartbeat (snd (startHeartbeat (\<lambda>e. True) (Num 30) initial_state)))) = 1"
    by (simp add: startHeartbeat_def stopHeartbeat_def initial_state_def stop_task_def)
  have n: "heartbeatTask initial_state = None" by (simp add: initial_state_def)
  from start_stop_round_trip
         [where s = initial_state and accepts = "\<lambda>e. True" and n = "Num 30" and m = "Num 15"
            and calls = "[]"] l n
  show ?thesis by (simp add: Let_def)
qed

text \<open>Whatever the interval, the environment and the answer, a tick sends one request.\<close>

lemma tick_requests:
  "filter is_request (heartbeat_tick n env_url answer)
   = [Fetch ''GET'' (or_else env_url ''http://localhost:8000'' @ ''/api/health'')]"
  by (cases answer) (simp_all add: heartbeat_tick_def notifyOrchestrator_def Let_def)

text \<open>
  Claim C4. A tick logs, requests the health endpoint of the orchestrator and logs the
  answer. It sends neither the request that triggers the metrics collection of a campaign
  nor the one that triggers its learning update.
\<close>

theorem tick_only_checks_health:
  "heartbeat_tick (Num 30) None (Responded 200)
     = [Log Info ''Heartbeat tick (every 30min)'',
        Fetch ''GET'' ''http://localhost:8000/api/health'',
        Log Info ''Heartbeat: orchestrator is healthy'']
   \<and> triggerMetrics ''http://localhost:8000'' ''campaign-1''
       \<notin> set (heartbeat_tick (Num 30) None (Responded 200))
   \<and> triggerLearning ''http://localhost:8000'' ''campaign-1''
       \<notin> set (heartbeat_tick (Num 30) None (Responded 200))"
  by (simp add: heartbeat_tick_def notifyOrchestrator_def triggerMetrics_def triggerLearning_def)

section \<open>Properties of metrics collection\<close>

lemma TwitterAgent_metrics_shape:
  "length (TwitterAgent_metrics rnd k ids) = length ids
   \<and> map (\<lambda>m. field m ''post_id'') (TwitterAgent_metrics rnd k ids) = map (\<lambda>i. Some (JStr i)) ids
   \<and> map (\<lambda>m. field m ''status'') (TwitterAgent_metrics rnd k ids)
       = map (\<lambda>i. Some (JStr ''simulated'')) ids"
  by (induction ids arbitrary: k) simp_all

lemma RedditAgent_metrics_shape:
  "length (RedditAgent_metrics rnd k ids) = length ids
   \<and> map (\<lambda>m. field m ''post_id'') (RedditAgent_metrics rnd k ids) = map (\<lambda>i. Some (JStr i)) ids
   \<and> map (\<lambda>m. field m ''status'') (RedditAgent_metrics rnd k ids)
       = map (\<lambda>i. Some (JStr ''simulated'')) ids"
  by (induction ids arbitrary: k) simp_all

lemma InstagramAgent_metrics_shape:
  "length (InstagramAgent_metrics rnd k ids) = length ids
   \<and> map (\<lambda>m. field m ''post_id'') (InstagramAgent_metrics rnd k ids) = map (\<lambda>i. Some (JStr i)) ids
   \<and> map (\<lambda>m. field m ''status'') (InstagramAgent_metrics rnd k ids)
       = map (\<lambda>i. Some (JStr ''simulated'')) ids"
  by (induction ids arbitrary: k) simp_all

lemma TwitterAgent_metrics_ignore_ids:
  "length ids = length ids' \<Longrightarrow>
   map without_post_id (TwitterAgent_metrics rnd k ids)
   = map without_post_id (TwitterAgent_metrics rnd k ids')"
proof (induction ids arbitrary: k ids')
  case Nil
  then show ?case by simp
next
  case (Cons i ids)
  then obtain j js where "ids' = j # js" and "length ids = length js"
    by (cases ids') simp_all
  then show ?case using Cons.IH [of js "k + 6"] by simp
qed

lemma RedditAgent_metrics_ignore_ids:
  "length ids = length ids' \<Longrightarrow>
   map without_post_id (RedditAgent_metrics rnd k ids)
   = map without_post_id (RedditAgent_metrics rnd k ids')"
proof (induction ids arbitrary: k ids')
  case Nil
  then show ?case by simp
next
  case (Cons i ids)
  then obtain j js where "ids' = j # js" and "length ids = length js"
    by (cases ids') simp_all
  then show ?case using Cons.IH [of js "k + 4"] by simp
qed

lemma InstagramAgent_metrics_ignore_ids:
  "length ids = length ids' \<Longrightarrow>
   map without_post_id (InstagramAgent_metrics rnd k ids)
   = map without_post_id (InstagramAgent_metrics rnd k ids')"
proof (induction ids arbitrary: k ids')
  case Nil
  then show ?case by simp
next
  case (Cons i ids)
  then obtain j js where "ids' = j # js" and "length ids = length js"
    by (cases ids') simp_all
  then show ?case using Cons.IH [of js "k + 6"] by simp
qed

text \<open>
  Claim C3, as stated, fails: with a random source that always returns one half, the
  result for the id \<open>no-such-post\<close>, which no platform can resolve, carries 5000
  impressions on Twitter (2500 on Reddit, 7500 on Instagram): its metrics are neither zero
  nor missing.
\<close>

theorem unresolvable_id_metrics_not_zeroed:
  "\<not> list_all zeroed_or_absent (TwitterAgent_metrics (\<lambda>k. 1 / 2) 0 [''no-such-post''])
   \<and> \<not> list_all zeroed_or_absent (RedditAgent_metrics (\<lambda>k. 1 / 2) 0 [''no-such-post''])
   \<and> \<not> list_all zeroed_or_absent (InstagramAgent_metrics (\<lambda>k. 1 / 2) 0 [''no-such-post''])"
  by (simp add: zeroed_or_absent_def metric_keys_def random_below_def)

text \<open>
  Claim C3, amended. For each adapter, every random source and every batch of post ids,
  \<^verbatim>\<open>collectMetrics\<close> returns, without throwing, exactly one result per id, in the order of
  the batch, each carrying its id and the status \<open>simulated\<close>. The adapters resolve no id:
  apart from \<open>post_id\<close>, the results depend on the length of the batch and on the random
  source only, so an id that cannot be resolved gets simulated metrics like any other.
\<close>

theorem collectMetrics_one_result_per_id:
  "(\<exists>ms. snd (TwitterAgent_collectMetrics rnd ids) = Inr ms
         \<and> length ms = length ids
         \<and> map (\<lambda>m. field m ''post_id'') ms = map (\<lambda>i. Some (JStr i)) ids
         \<and> map (\<lambda>m. field m ''status'') ms = map (\<lambda>i. Some (JStr ''simulated'')) ids)
   \<and> (\<exists>ms. snd (RedditAgent_collectMetrics rnd ids) = Inr ms
         \<and> length ms = length ids
         \<and> map (\<lambda>m. field m ''post_id'') ms = map (\<lambda>i. Some (JStr i)) ids
         \<and> map (\<lambda>m. field m ''status'') ms = map (\<lambda>i. Some (JStr ''simulated'')) ids)
   \<and> (\<exists>ms. snd (InstagramAgent_collectMetrics rnd ids) = Inr ms
         \<and> length ms = length ids
         \<and> map (\<lambda>m. field m ''post_id'') ms = map (\<lambda>i. Some (JStr i)) ids
         \<and> map (\<lambda>m. field m ''status'') ms = map (\<lambda>i. Some (JStr ''simulated'')) ids)
   \<and> (length ids = length ids' \<longrightarrow>
        map without_post_id (TwitterAgent_metrics rnd 0 ids)
          = map without_post_id (TwitterAgent_metrics rnd 0 ids')
        \<and> map without_post_id (RedditAgent_metrics rnd 0 ids)
          = map without_post_id (RedditAgent_metrics rnd 0 ids')
        \<and> map without_post_id (InstagramAgent_metrics rnd 0 ids)
          = map without_post_id (InstagramAgent_metrics rnd 0 ids'))"
proof -
  note t = TwitterAgent_metrics_shape [of rnd 0 ids]
  note r = RedditAgent_metrics_shape [of rnd 0 ids]
  note i = InstagramAgent_metrics_shape [of rnd 0 ids]
  note ti = TwitterAgent_metrics_ignore_ids [of ids ids' rnd 0]
  note ri = RedditAgent_metrics_ignore_ids [of ids ids' rnd 0]
  note ii = InstagramAgent_metrics_ignore_ids [of ids ids' rnd 0]
  show ?thesis
    unfolding TwitterAgent_collectMetrics_def RedditAgent_collectMetrics_def
      InstagramAgent_collectMetrics_def snd_conv
    using t r i ti ri ii by blast
qed

text \<open>The theorem at a batch of an id the gateway issued and an id it never issued.\<close>

theorem collectMetrics_mixed_batch:
  "snd (TwitterAgent_collectMetrics (\<lambda>k. 1 / 2) [''tw_reply_1700000000000'', ''no-such-post''])
     = Inr [JObj [(''post_id'', JStr ''tw_reply_1700000000000''), (''impressions'', JNum 5000),
                  (''likes'', JNum 100), (''replies'', JNum 25), (''reposts'', JNum 15),
                  (''clicks'', JNum 50), (''follower_delta'', JNum 3),
                  (''status'', JStr ''simulated'')],
            JObj [(''post_id'', JStr ''no-such-post''), (''impressions'', JNum 5000),
                  (''likes'', JNum 100), (''replies'', JNum 25), (''reposts'', JNum 15),
                  (''clicks'', JNum 50), (''follower_delta'', JNum 3),
                  (''status'', JStr ''simulated'')]]
   \<and> map without_post_id (TwitterAgent_metrics (\<lambda>k. 1 / 2) 0 [''tw_reply_1700000000000'', ''no-such-post''])
     = map without_post_id (TwitterAgent_metrics (\<lambda>k. 1 / 2) 0 [''a'', ''b''])"
proof -
  have l: "length [''tw_reply_1700000000000'', ''no-such-post''] = length [''a'', ''b'']"
    by simp
  from collectMetrics_one_result_per_id
         [of "\<lambda>k. 1 / 2" "[''tw_reply_1700000000000'', ''no-such-post'']" "[''a'', ''b'']"] l
  show ?thesis
    by (simp add: TwitterAgent_collectMetrics_def random_below_def)
qed

section \<open>Properties of the activity subscribers\<close>







section \<open>Properties of the campaign pipeline\<close>

lemma stage_order_eval:
  "stage_order = [''intent'', ''scouting'', ''vision'', ''strategy'', ''engagement'']"
  by (simp add: stage_order_def PIPELINE_STAGES_def)








text \<open>Two cycles of the model: a failure at the vision stage, and a full cycle.\<close>

lemma vision_failure_scenario:
  "last (runCycle (\<lambda>s. if s = ''vision'' then Some ''timeout'' else None))
   = \<lparr>stage = ''error'', completed = [''intent'', ''scouting''], error_detail = Some ''timeout''\<rparr>"
  by (simp add: runCycle_def stage_order_eval)

lemma full_cycle_scenario:
  "runCycle (\<lambda>s. None)
   = [\<lparr>stage = ''intent'', completed = [], error_detail = None\<rparr>,
      \<lparr>stage = ''intent'', completed = [''intent''], error_detail = None\<rparr>,
      \<lparr>stage = ''scouting'', completed = [''intent''], error_detail = None\<rparr>,
      \<lparr>stage = ''scouting'', completed = [''intent'', ''scouting''], error_detail = None\<rparr>,
      \<lparr>stage = ''vision'', completed = [''intent'', ''scouting''], error_detail = None\<rparr>,
      \<lparr>stage = ''vision'', completed = [''intent'', ''scouting'', ''vision''],
       error_detail = None\<rparr>,
      \<lparr>stage = ''strategy'', completed = [''intent'', ''scouting'', ''vision''],
       error_detail = None\<rparr>,
      \<lparr>stage = ''strategy'', completed = [''intent'', ''scouting'', ''vision'', ''strategy''],
       error_detail = None\<rparr>,
      \<lparr>stage = ''engagement'', completed = [''intent'', ''scouting'', ''vision'', ''strategy''],
       error_detail = None\<rparr>,
      \<lparr>stage = ''engagement'',
       completed = [''intent'', ''scouting'', ''vision'', ''strategy'', ''engagement''],
       error_detail = None\<rparr>,
      \<lparr>stage = ''completed'',
       completed = [''intent'', ''scouting'', ''vision'', ''strategy'', ''engagement''],
       error_detail = None\<rparr>]"
  by (simp add: runCycle_def stage_order_eval)

end
